theory Spec2Isabelle
  imports Main
begin

section \<open>The data grid cell hook and the auth identity fixture\<close>

text \<open>
  A shallow embedding of \<^verbatim>\<open>data-grid/hooks.tsx\<close> (the hook \<^verbatim>\<open>useDataGridCell\<close> with
  its event handlers) and of the fixture helper \<^verbatim>\<open>createAuthIdentities\<close>.

  A handler of the hook is a function from the event and the state it arrives in to the
  state it leaves. The state holds what a handler reads or writes: the coordinator's
  selection state, the cell's \<^verbatim>\<open>showOverlay\<close> state, the two refs, the focused
  element, and what the handler did to the event and to the input. The values a handler
  closes over (\<^verbatim>\<open>anchor\<close>, \<^verbatim>\<open>showOverlay\<close>, \<^verbatim>\<open>coords\<close>, \<^verbatim>\<open>type\<close>) are all listed in
  the dependency array of its \<^verbatim>\<open>useCallback\<close>, so the handler in effect when the host
  delivers an event reads the values of the state the event arrives in. The setters
  only queue their updates, and no handler reads a state after it has set it, so
  applying the setters one after the other gives the state after the batched update.

  One handler is entered again before the next render: \<^verbatim>\<open>handleContainerKeyDown\<close>
  dispatches an event that comes back up to it. There the value it closes over is not
  that of the state any more, so this handler takes its \<^verbatim>\<open>showOverlay\<close> as an argument.
\<close>

subsection \<open>Coordinates, cell types, strings, events\<close>

record CellCoords =
  row :: int
  col :: int

text \<open>The \<^verbatim>\<open>type\<close> property: \<^verbatim>\<open>"text" | "number" | "select" | "boolean"\<close>.\<close>

datatype cell_type = TypeText | TypeNumber | TypeSelect | TypeBoolean

text \<open>
  A JavaScript string, read as both regular expressions read it (they carry the
  \<^verbatim>\<open>u\<close> flag): a list of code points.
\<close>

type_synonym js_string = "nat list"

definition js :: "string \<Rightarrow> js_string" where
  "js s = map of_char s"

text \<open>
  The line terminators, which \<^verbatim>\<open>.\<close> does not match: U+000A, U+000D, U+2028, U+2029.
\<close>

definition isLineTerminator :: "nat \<Rightarrow> bool" where
  "isLineTerminator c = (c = 10 \<or> c = 13 \<or> c = 8232 \<or> c = 8233)"

text \<open>\<^verbatim>\<open>/^.$/u.test(key)\<close>: exactly one code point, not a line terminator.\<close>

definition textCharacterRegex :: "js_string \<Rightarrow> bool" where
  "textCharacterRegex k = (case k of [c] \<Rightarrow> \<not> isLineTerminator c | _ \<Rightarrow> False)"

text \<open>\<^verbatim>\<open>/^[0-9]$/u.test(key)\<close>: exactly one code point, from U+0030 to U+0039.\<close>

definition numberCharacterRegex :: "js_string \<Rightarrow> bool" where
  "numberCharacterRegex k = (case k of [c] \<Rightarrow> 48 \<le> c \<and> c \<le> 57 | _ \<Rightarrow> False)"

text \<open>
  \<^verbatim>\<open>String.prototype.toLowerCase\<close> on the letters A to Z. The handler only compares the
  result with \<^verbatim>\<open>"z"\<close>, \<^verbatim>\<open>"c"\<close> and \<^verbatim>\<open>"v"\<close>, and no code point outside A to Z has
  one of these three as its lower case, so the other code points are left as they are.
\<close>

definition toLowerCase :: "js_string \<Rightarrow> js_string" where
  "toLowerCase s = map (\<lambda>c. if 65 \<le> c \<and> c \<le> 90 then c + 32 else c) s"

text \<open>Of a mouse event the handlers read \<^verbatim>\<open>detail\<close> (the click count) and \<^verbatim>\<open>shiftKey\<close>.\<close>

record MouseEvent =
  detail :: int
  shiftKey :: bool

text \<open>Of a keyboard event the handler reads \<^verbatim>\<open>key\<close>, \<^verbatim>\<open>ctrlKey\<close> and \<^verbatim>\<open>metaKey\<close>.\<close>

record KeyboardEvent =
  key :: js_string
  ctrlKey :: bool
  metaKey :: bool

text \<open>
  What a ref can hold. \<^verbatim>\<open>inputRef\<close> is a ref to an \<^verbatim>\<open>HTMLElement\<close>, which may or may
  not be an \<^verbatim>\<open>HTMLInputElement\<close>; \<^verbatim>\<open>containerRef\<close> is a ref to an \<^verbatim>\<open>HTMLDivElement\<close>. A
  ref whose \<^verbatim>\<open>current\<close> is \<^verbatim>\<open>null\<close> is \<open>None\<close>.
\<close>

datatype element = HTMLInputElement | HTMLDivElement | OtherHTMLElement

text \<open>The element that has the focus, as far as the cell can tell.\<close>

datatype focus_target = InputFocused | ContainerFocused | FocusElsewhere

subsection \<open>The coordinator\<close>

text \<open>
  The state behind the \<^verbatim>\<open>DataGridContext\<close>: the anchor, the end of the active range,
  and the two interaction flags.
\<close>

record DataGridContext =
  anchor :: "CellCoords option"
  rangeEnd :: "CellCoords option"
  isSelecting :: bool
  isEditing :: bool

text \<open>
  Modelled from the spec: the coordinator's setter \<^verbatim>\<open>setSingleRange\<close> is defined in the
  provider of the context, outside these sources. The spec: "set a new single-cell range
  at the clicked coordinates (anchor = end = clicked cell)".
\<close>

definition setSingleRange :: "CellCoords \<Rightarrow> DataGridContext \<Rightarrow> DataGridContext" where
  "setSingleRange coords g = g\<lparr>anchor := Some coords, rangeEnd := Some coords\<rparr>"

text \<open>
  Modelled from the spec: the coordinator's setter \<^verbatim>\<open>setRangeEnd\<close> is defined in the
  provider of the context, outside these sources. The spec: "extend the active range's end
  to the clicked coordinates", "without changing the anchor".
\<close>

definition setRangeEnd :: "CellCoords \<Rightarrow> DataGridContext \<Rightarrow> DataGridContext" where
  "setRangeEnd coords g = g\<lparr>rangeEnd := Some coords\<rparr>"

text \<open>
  Modelled from the spec: the coordinator's setter \<^verbatim>\<open>setIsSelecting\<close> is defined in the
  provider of the context, outside these sources. The spec: \<^verbatim>\<open>setIsSelecting(bool)\<close> sets
  the flag \<^verbatim>\<open>isSelecting\<close>.
\<close>

definition setIsSelecting :: "bool \<Rightarrow> DataGridContext \<Rightarrow> DataGridContext" where
  "setIsSelecting b g = g\<lparr>isSelecting := b\<rparr>"

text \<open>
  Modelled from the spec: the coordinator's setter \<^verbatim>\<open>setIsEditing\<close> is defined in the
  provider of the context, outside these sources. The spec: \<^verbatim>\<open>setIsEditing(bool)\<close> sets
  the flag \<^verbatim>\<open>isEditing\<close>.
\<close>

definition setIsEditing :: "bool \<Rightarrow> DataGridContext \<Rightarrow> DataGridContext" where
  "setIsEditing b g = g\<lparr>isEditing := b\<rparr>"

text \<open>
  Modelled from the spec: \<^verbatim>\<open>isCellMatch\<close> is imported from \<^verbatim>\<open>./utils\<close>, outside these
  sources. The spec: "Two coordinate pairs are equal iff both components match."
\<close>

definition isCellMatch :: "CellCoords \<Rightarrow> CellCoords \<Rightarrow> bool" where
  "isCellMatch a b = (row a = row b \<and> col a = col b)"

subsection \<open>The state of one cell\<close>

text \<open>
  \<open>grid\<close> is the coordinator's state; \<open>showOverlay\<close> the cell's \<^verbatim>\<open>useState\<close>;
  \<open>inputRef\<close> and \<open>containerRef\<close> the \<^verbatim>\<open>current\<close> of the two refs; \<open>activeElement\<close>
  the element focused last by \<^verbatim>\<open>focus()\<close>; \<open>inputSelected\<close> whether \<^verbatim>\<open>select()\<close> was
  called on the input; \<open>dispatched\<close> the events handed to the input by
  \<^verbatim>\<open>dispatchEvent\<close>, oldest first; \<open>defaultPrevented\<close> and \<open>propagationStopped\<close> whether
  \<^verbatim>\<open>preventDefault()\<close> and \<^verbatim>\<open>stopPropagation()\<close> were called on the event being handled.

  \<open>reported\<close> holds the exceptions raised inside a listener of a dispatched event: the
  dispatch reports them and returns, so they do not reach the handler that dispatched.
  \<open>containerFocusEvents\<close> counts the focus events the container's \<^verbatim>\<open>onFocus\<close> was run
  for.
\<close>

datatype error = Error string | RangeError string

record cell =
  grid :: DataGridContext
  showOverlay :: bool
  inputRef :: "element option"
  containerRef :: "element option"
  activeElement :: focus_target
  inputSelected :: bool
  dispatched :: "KeyboardEvent list"
  defaultPrevented :: bool
  propagationStopped :: bool
  reported :: "error list"
  containerFocusEvents :: nat

subsection \<open>The handlers\<close>

text \<open>\<^verbatim>\<open>handleInputBlur\<close> and \<^verbatim>\<open>handleInputFocus\<close>, lines 139 to 147.\<close>

definition handleInputBlur :: "cell \<Rightarrow> cell" where
  "handleInputBlur s = s\<lparr>showOverlay := True, grid := setIsEditing False (grid s)\<rparr>"

definition handleInputFocus :: "cell \<Rightarrow> cell" where
  "handleInputFocus s = s\<lparr>showOverlay := False, grid := setIsEditing True (grid s)\<rparr>"

text \<open>
  \<^verbatim>\<open>focus()\<close> moves the focus and, before it returns, the host runs the callbacks of the
  elements that lose and gain it. The hook binds two of them, on the input (lines 236 and
  237): \<^verbatim>\<open>onFocus\<close> is \<open>handleInputFocus\<close> and \<^verbatim>\<open>onBlur\<close> is \<open>handleInputBlur\<close>. So
  \<^verbatim>\<open>inputRef.current.focus()\<close> runs \<open>handleInputFocus\<close> unless the input has the focus
  already, and \<^verbatim>\<open>containerRef.current.focus()\<close> runs \<open>handleInputBlur\<close> when it takes the
  focus from the input. An element that has the focus already gets no event.

  The input is rendered inside the container, so a focus event of the input comes up to
  the container's \<^verbatim>\<open>onFocus\<close> (line 227) as one of the container itself does. That
  callback is made by the coordinator's \<^verbatim>\<open>getWrapperFocusHandler\<close>, whose code is outside
  these sources and of which the spec gives the name only: the model counts its runs.
  No handler calls a setter of the coordinator after a run of it, so \<open>grid\<close> is the
  coordinator's state as the hook's own code leaves it, before what that callback does.
  The callbacks of elements outside the cell are not in the model.
\<close>

definition containerOnFocus :: "cell \<Rightarrow> cell" where
  "containerOnFocus s = s\<lparr>containerFocusEvents := Suc (containerFocusEvents s)\<rparr>"

definition focusInput :: "cell \<Rightarrow> cell" where
  "focusInput s =
     (if activeElement s = InputFocused then s
      else containerOnFocus (handleInputFocus (s\<lparr>activeElement := InputFocused\<rparr>)))"

definition focusContainer :: "cell \<Rightarrow> cell" where
  "focusContainer s =
     (if activeElement s = ContainerFocused then s
      else if activeElement s = InputFocused \<and> inputRef s \<noteq> None
      then containerOnFocus (handleInputBlur (s\<lparr>activeElement := ContainerFocused\<rparr>))
      else containerOnFocus (s\<lparr>activeElement := ContainerFocused\<rparr>))"

text \<open>\<^verbatim>\<open>handleOverlayMouseDown\<close>, lines 82 to 113.\<close>

definition handleOverlayMouseDown :: "CellCoords \<Rightarrow> MouseEvent \<Rightarrow> cell \<Rightarrow> cell" where
  "handleOverlayMouseDown coords e s0 =
     (let s = s0\<lparr>defaultPrevented := True, propagationStopped := True\<rparr> in
      if detail e = 2 \<and> inputRef s \<noteq> None then
        focusInput (s\<lparr>showOverlay := False\<rparr>)
      else if shiftKey e \<and>
          (case anchor (grid s) of None \<Rightarrow> False | Some a \<Rightarrow> col coords = col a) then
        s\<lparr>grid := setRangeEnd coords (grid s)\<rparr>
      else if containerRef s \<noteq> None then
        focusContainer (s\<lparr>grid := setIsSelecting True (setSingleRange coords (grid s))\<rparr>)
      else s)"

text \<open>\<^verbatim>\<open>handleBooleanInnerMouseDown\<close>, lines 115 to 137.\<close>

definition handleBooleanInnerMouseDown :: "CellCoords \<Rightarrow> MouseEvent \<Rightarrow> cell \<Rightarrow> cell" where
  "handleBooleanInnerMouseDown coords e s0 =
     (let s = s0\<lparr>defaultPrevented := True, propagationStopped := True\<rparr> in
      if detail e = 2 then
        (if inputRef s \<noteq> None then focusInput s else s)
      else if shiftKey e then
        s\<lparr>grid := setRangeEnd coords (grid s)\<rparr>
      else if containerRef s \<noteq> None then
        focusContainer (s\<lparr>grid := setIsSelecting True (setSingleRange coords (grid s))\<rparr>)
      else s)"

text \<open>\<^verbatim>\<open>validateKeyStroke\<close>, lines 149 to 163.\<close>

definition validateKeyStroke :: "cell_type \<Rightarrow> js_string \<Rightarrow> bool" where
  "validateKeyStroke ty k =
     (if ty = TypeNumber then numberCharacterRegex k
      else if ty = TypeText then textCharacterRegex k
      else False)"

text \<open>
  \<^verbatim>\<open>handleContainerKeyDown\<close>, lines 165 to 199. \<open>showOverlayClosure\<close> is the
  \<^verbatim>\<open>showOverlay\<close> the handler closes over: the value at the render that made it.

  The event built by \<^verbatim>\<open>new KeyboardEvent(e.type, e.nativeEvent)\<close> has the key and the
  modifiers of \<open>e\<close>, and it bubbles as \<open>e\<close> does. The input is rendered inside the
  container (the test of \<^verbatim>\<open>showOverlay\<close> on line 167 is there for the keydowns that come
  up from the input), so \<^verbatim>\<open>dispatchEvent\<close> hands the event to the input and then to the
  container's \<^verbatim>\<open>onKeyDown\<close>, which is this handler: no render has happened, so it is the
  same closure, with the same \<open>showOverlayClosure\<close>, and the updates queued so far are
  not visible to it. \<open>depth\<close> is the number of times the call stack lets the handler be
  entered again; the entry after that raises a \<^verbatim>\<open>RangeError\<close>, which the dispatch
  reports.
\<close>

fun handleContainerKeyDown ::
  "nat \<Rightarrow> cell_type \<Rightarrow> bool \<Rightarrow> KeyboardEvent \<Rightarrow> cell \<Rightarrow> cell" where
  "handleContainerKeyDown depth ty showOverlayClosure e s =
     (case inputRef s of
        None \<Rightarrow> s
      | Some el \<Rightarrow>
          if \<not> validateKeyStroke ty (key e) \<or> \<not> showOverlayClosure then s
          else if toLowerCase (key e) = js ''z'' \<and> (ctrlKey e \<or> metaKey e) then s
          else if toLowerCase (key e) = js ''c'' \<and> (ctrlKey e \<or> metaKey e) then s
          else if toLowerCase (key e) = js ''v'' \<and> (ctrlKey e \<or> metaKey e) then s
          else
            (let event = e;
                 s1 = focusInput s;
                 s2 = s1\<lparr>showOverlay := False\<rparr>;
                 s3 = (if el = HTMLInputElement then s2\<lparr>inputSelected := True\<rparr> else s2);
                 s4 = s3\<lparr>dispatched := dispatched s3 @ [event]\<rparr>
             in case depth of
                  0 \<Rightarrow>
                    s4\<lparr>reported :=
                         reported s4 @ [RangeError ''Maximum call stack size exceeded'']\<rparr>
                | Suc d \<Rightarrow> handleContainerKeyDown d ty showOverlayClosure event s4))"

subsection \<open>The hook and what it hands to the view\<close>

text \<open>\<^verbatim>\<open>useDataGridContext\<close>, lines 20 to 30: the \<^verbatim>\<open>throw\<close> is the left summand.\<close>

definition useDataGridContext :: "DataGridContext option \<Rightarrow> error + DataGridContext" where
  "useDataGridContext ctx =
     (case ctx of
        None \<Rightarrow> Inl (Error ''useDataGridContext must be used within a DataGridContextProvider'')
      | Some g \<Rightarrow> Inr g)"

text \<open>\<^verbatim>\<open>fieldWithoutOverlay\<close>, lines 205 to 207.\<close>

definition fieldWithoutOverlay :: "cell_type \<Rightarrow> bool" where
  "fieldWithoutOverlay ty = (ty = TypeBoolean \<or> ty = TypeSelect)"

text \<open>\<^verbatim>\<open>isAnchor\<close>, lines 201 to 203.\<close>

definition isAnchor :: "CellCoords \<Rightarrow> CellCoords option \<Rightarrow> bool" where
  "isAnchor coords anc = (case anc of Some a \<Rightarrow> isCellMatch coords a | None \<Rightarrow> False)"

text \<open>
  The render props, lines 215 to 244, with the fields the hook computes itself. The
  fields it only passes on from the coordinator (\<^verbatim>\<open>isSelected\<close>, \<^verbatim>\<open>isDragSelected\<close>,
  \<^verbatim>\<open>onMouseOver\<close>, the container's \<^verbatim>\<open>onFocus\<close>, \<^verbatim>\<open>onChange\<close>) and the two refs are left
  out. An \<^verbatim>\<open>undefined\<close> handler is \<open>None\<close>.
\<close>

record DataGridCellRenderProps =
  container_isAnchor :: bool
  container_showOverlay :: bool
  innerProps_onMouseDown :: "(MouseEvent \<Rightarrow> cell \<Rightarrow> cell) option"
  innerProps_onKeyDown :: "nat \<Rightarrow> KeyboardEvent \<Rightarrow> cell \<Rightarrow> cell"
  innerProps_data_container_id :: string
  overlayProps_onMouseDown :: "MouseEvent \<Rightarrow> cell \<Rightarrow> cell"
  input_onBlur :: "cell \<Rightarrow> cell"
  input_onFocus :: "cell \<Rightarrow> cell"
  input_data_row :: int
  input_data_col :: int
  input_data_cell_id :: string
  input_data_field :: string

text \<open>
  The arguments are what the render reads: the \<^verbatim>\<open>field\<close> and \<^verbatim>\<open>type\<close> properties, the
  coordinates, the cell's id, the coordinator's anchor and the \<^verbatim>\<open>showOverlay\<close> state.
\<close>

definition renderProps ::
  "string \<Rightarrow> cell_type \<Rightarrow> CellCoords \<Rightarrow> string \<Rightarrow> CellCoords option \<Rightarrow> bool \<Rightarrow>
   DataGridCellRenderProps" where
  "renderProps fld ty coords ident anc showOverlayState =
     \<lparr>container_isAnchor = isAnchor coords anc,
      container_showOverlay = (if fieldWithoutOverlay ty then False else showOverlayState),
      innerProps_onMouseDown =
        (if ty = TypeBoolean then Some (handleBooleanInnerMouseDown coords) else None),
      innerProps_onKeyDown = (\<lambda>depth. handleContainerKeyDown depth ty showOverlayState),
      innerProps_data_container_id = ident,
      overlayProps_onMouseDown = handleOverlayMouseDown coords,
      input_onBlur = handleInputBlur,
      input_onFocus = handleInputFocus,
      input_data_row = row coords,
      input_data_col = col coords,
      input_data_cell_id = ident,
      input_data_field = fld\<rparr>"

text \<open>
  The properties of the hook, lines 32 to 36; of the \<^verbatim>\<open>context\<close> property the hook reads
  \<^verbatim>\<open>rowIndex\<close> and \<^verbatim>\<open>columnIndex\<close>.
\<close>

record UseDataGridCellProps =
  field :: string
  rowIndex :: int
  columnIndex :: int
  type :: cell_type

record UseDataGridCellResult =
  result_id :: string
  result_renderProps :: DataGridCellRenderProps

text \<open>
  \<^verbatim>\<open>useDataGridCell\<close>, lines 41 to 252, for one render. \<^verbatim>\<open>generateCellId\<close> is imported
  from \<^verbatim>\<open>./utils\<close>, outside these sources, and is a parameter here. \<open>ctx\<close> is what
  \<^verbatim>\<open>useContext(DataGridContext)\<close> returns: \<open>None\<close> when no provider encloses the cell.
  \<open>showOverlayState\<close> is the current value of the \<^verbatim>\<open>showOverlay\<close> state.
\<close>

definition useDataGridCell ::
  "(CellCoords \<Rightarrow> string) \<Rightarrow> UseDataGridCellProps \<Rightarrow> DataGridContext option \<Rightarrow> bool \<Rightarrow>
   error + UseDataGridCellResult" where
  "useDataGridCell generateCellId props ctx showOverlayState =
     (let coords = \<lparr>row = rowIndex props, col = columnIndex props\<rparr>;
          ident = generateCellId coords
      in case useDataGridContext ctx of
           Inl err \<Rightarrow> Inl err
         | Inr g \<Rightarrow>
             Inr \<lparr>result_id = ident,
                  result_renderProps =
                    renderProps (field props) (type props) coords ident (anchor g)
                      showOverlayState\<rparr>)"

subsection \<open>The fixture helper\<close>

text \<open>
  The records handed to the service: an optional \<^verbatim>\<open>id\<close>, the provider identities, and
  optional \<^verbatim>\<open>app_metadata\<close> (a list of keys with their values).
\<close>

record ProviderIdentity =
  entity_id :: string
  provider :: string

record AuthIdentityData =
  id_field :: "string option"
  provider_identities :: "ProviderIdentity list"
  app_metadata :: "(string \<times> string) list option"

text \<open>The default value of the parameter \<^verbatim>\<open>userData\<close>, lines 6 to 36.\<close>

definition defaultUserData :: "AuthIdentityData list" where
  "defaultUserData =
     [\<lparr>id_field = Some ''test-id'',
       provider_identities = [\<lparr>entity_id = ''test-id'', provider = ''manual''\<rparr>],
       app_metadata = Some [(''user_id'', ''user-1'')]\<rparr>,
      \<lparr>id_field = Some ''test-id-1'',
       provider_identities = [\<lparr>entity_id = ''test-id-1'', provider = ''manual''\<rparr>],
       app_metadata = None\<rparr>,
      \<lparr>id_field = None,
       provider_identities = [\<lparr>entity_id = ''test-id-2'', provider = ''store''\<rparr>],
       app_metadata = None\<rparr>]"

text \<open>
  \<^verbatim>\<open>createAuthIdentities\<close>, lines 4 to 39. The service is a parameter: its method
  \<^verbatim>\<open>createAuthIdentities\<close> takes the records and the state of the service, and gives the
  outcome of the promise it returns (\<open>Inl\<close> the reason of a rejection, \<open>Inr\<close> the records
  it resolves to) with the state of the service after the call. An omitted \<^verbatim>\<open>userData\<close>
  is \<open>None\<close>.
\<close>

definition createAuthIdentities ::
  "(AuthIdentityData list \<Rightarrow> 'st \<Rightarrow> ('e + 'r list) \<times> 'st) \<Rightarrow> AuthIdentityData list option \<Rightarrow>
   'st \<Rightarrow> ('e + 'r list) \<times> 'st" where
  "createAuthIdentities service userData st =
     service (case userData of None \<Rightarrow> defaultUserData | Some d \<Rightarrow> d) st"

subsection \<open>A grid and a cell for the instances\<close>

text \<open>
  A coordinator whose anchor and range are the cell in row 0 and column 0, and a cell in
  Overlay mode with both of its elements mounted, an \<^verbatim>\<open>HTMLInputElement\<close> as its input.
\<close>

definition exampleGrid :: DataGridContext where
  "exampleGrid =
     \<lparr>anchor = Some \<lparr>row = 0, col = 0\<rparr>, rangeEnd = Some \<lparr>row = 0, col = 0\<rparr>,
      isSelecting = False, isEditing = False\<rparr>"

definition exampleCell :: cell where
  "exampleCell =
     \<lparr>grid = exampleGrid, showOverlay = True, inputRef = Some HTMLInputElement,
      containerRef = Some HTMLDivElement, activeElement = FocusElsewhere,
      inputSelected = False, dispatched = [], defaultPrevented = False,
      propagationStopped = False, reported = [], containerFocusEvents = 0\<rparr>"

text \<open>
  A service for the instances: it rejects an empty list, resolves to the entity ids of
  each record otherwise, and counts its calls.
\<close>

definition exampleService ::
  "AuthIdentityData list \<Rightarrow> nat \<Rightarrow> (string + string list list) \<times> nat" where
  "exampleService d calls =
     (if d = [] then Inl ''no identities given''
      else Inr (map (\<lambda>r. map entity_id (provider_identities r)) d),
      calls + 1)"

subsection \<open>The two ways through the keydown handler\<close>

text \<open>
  The tests of lines 167 to 184 taken together: true when the handler goes on to forward
  the key.
\<close>

definition keyStrokeAccepted :: "cell_type \<Rightarrow> bool \<Rightarrow> KeyboardEvent \<Rightarrow> cell \<Rightarrow> bool" where
  "keyStrokeAccepted ty showOverlayClosure e s =
     (inputRef s \<noteq> None \<and> validateKeyStroke ty (key e) \<and> showOverlayClosure \<and>
      \<not> ((toLowerCase (key e) = js ''z'' \<or> toLowerCase (key e) = js ''c'' \<or>
           toLowerCase (key e) = js ''v'') \<and> (ctrlKey e \<or> metaKey e)))"

text \<open>The effects of lines 188 to 196 on a state, with \<open>n\<close> events dispatched.\<close>

definition keyStrokeForwarded :: "nat \<Rightarrow> KeyboardEvent \<Rightarrow> cell \<Rightarrow> cell" where
  "keyStrokeForwarded n e s =
     (let s2 = (focusInput s)\<lparr>showOverlay := False\<rparr>;
          s3 = (if inputRef s = Some HTMLInputElement then s2\<lparr>inputSelected := True\<rparr> else s2)
      in s3\<lparr>dispatched := dispatched s @ replicate n e\<rparr>)"

section \<open>Properties\<close>

subsection \<open>Focus and blur of the input\<close>

text \<open>
  Claim C6. Every blur of the input puts the cell's \<^verbatim>\<open>showOverlay\<close> state to true and
  the coordinator's \<^verbatim>\<open>isEditing\<close> to false; every focus of the input puts
  \<^verbatim>\<open>showOverlay\<close> to false and \<^verbatim>\<open>isEditing\<close> to true. This holds in every state of
  every cell.
\<close>

theorem input_blur_focus_flags:
  "showOverlay (handleInputBlur s) = True \<and> isEditing (grid (handleInputBlur s)) = False \<and>
   showOverlay (handleInputFocus s) = False \<and> isEditing (grid (handleInputFocus s)) = True"
  by (simp add: handleInputBlur_def handleInputFocus_def setIsEditing_def)

subsection \<open>Moving the focus\<close>

text \<open>
  What \<^verbatim>\<open>focus()\<close> on the input leaves as it is, and what it sets: of the coordinator
  only \<^verbatim>\<open>isEditing\<close> is touched, by the input's focus callback.
\<close>

lemma focusInput_fields:
  "inputRef (focusInput s) = inputRef s" "containerRef (focusInput s) = containerRef s"
  "dispatched (focusInput s) = dispatched s" "reported (focusInput s) = reported s"
  "inputSelected (focusInput s) = inputSelected s"
  "defaultPrevented (focusInput s) = defaultPrevented s"
  "propagationStopped (focusInput s) = propagationStopped s"
  "anchor (grid (focusInput s)) = anchor (grid s)"
  "rangeEnd (grid (focusInput s)) = rangeEnd (grid s)"
  "isSelecting (grid (focusInput s)) = isSelecting (grid s)"
  "activeElement (focusInput s) = InputFocused"
  "showOverlay (focusInput s) = (activeElement s = InputFocused \<and> showOverlay s)"
  "isEditing (grid (focusInput s)) = (activeElement s = InputFocused \<longrightarrow> isEditing (grid s))"
  by (simp_all add: focusInput_def handleInputFocus_def containerOnFocus_def setIsEditing_def)

lemma focusInput_idle: "activeElement r = InputFocused \<Longrightarrow> focusInput r = r"
  by (simp add: focusInput_def)

text \<open>
  The same for \<^verbatim>\<open>focus()\<close> on the container, where the input's blur callback may run.
\<close>

lemma focusContainer_fields:
  "inputRef (focusContainer s) = inputRef s" "containerRef (focusContainer s) = containerRef s"
  "dispatched (focusContainer s) = dispatched s" "reported (focusContainer s) = reported s"
  "inputSelected (focusContainer s) = inputSelected s"
  "defaultPrevented (focusContainer s) = defaultPrevented s"
  "propagationStopped (focusContainer s) = propagationStopped s"
  "anchor (grid (focusContainer s)) = anchor (grid s)"
  "rangeEnd (grid (focusContainer s)) = rangeEnd (grid s)"
  "isSelecting (grid (focusContainer s)) = isSelecting (grid s)"
  "activeElement (focusContainer s) = ContainerFocused"
  "showOverlay (focusContainer s) =
     (activeElement s = InputFocused \<and> inputRef s \<noteq> None \<or> showOverlay s)"
  by (auto simp: focusContainer_def handleInputBlur_def containerOnFocus_def setIsEditing_def)

subsection \<open>Keys\<close>

lemma js_letters:
  "js ''z'' = [122]" "js ''Z'' = [90]" "js ''c'' = [99]" "js ''C'' = [67]"
  "js ''v'' = [118]" "js ''V'' = [86]" "js ''a'' = [97]" "js ''7'' = [55]"
  by (simp_all add: js_def)

lemma toLowerCase_single:
  "toLowerCase k = [x] \<longleftrightarrow>
     (\<exists>c. k = [c] \<and> (if 65 \<le> c \<and> c \<le> 90 then c + 32 else c) = x)"
  by (cases k; cases "tl k") (auto simp: toLowerCase_def)

text \<open>The keys a cell of each type accepts.\<close>

lemma validateKeyStroke_iff:
  "validateKeyStroke ty k \<longleftrightarrow>
     (\<exists>c. k = [c] \<and>
        (ty = TypeNumber \<and> 48 \<le> c \<and> c \<le> 57 \<or> ty = TypeText \<and> \<not> isLineTerminator c))"
  by (cases k; cases "tl k"; cases ty)
    (auto simp: validateKeyStroke_def numberCharacterRegex_def textCharacterRegex_def)

subsection \<open>The keydown handler, entered again\<close>

declare handleContainerKeyDown.simps [simp del]

lemma keyStrokeForwarded_again:
  "keyStrokeForwarded (Suc 0) e (keyStrokeForwarded n e s) = keyStrokeForwarded (Suc n) e s"
  by (simp add: keyStrokeForwarded_def Let_def focusInput_fields focusInput_idle
      replicate_append_same)

lemma keyStrokeForwarded_fields:
  "inputRef (keyStrokeForwarded n e s) = inputRef s"
  "reported (keyStrokeForwarded n e s) = reported s"
  "dispatched (keyStrokeForwarded n e s) = dispatched s @ replicate n e"
  by (simp_all add: keyStrokeForwarded_def Let_def focusInput_fields)

text \<open>A keydown that fails one of the tests changes nothing.\<close>

lemma keydown_rejected:
  "\<not> keyStrokeAccepted ty so e s \<Longrightarrow> handleContainerKeyDown depth ty so e s = s"
  by (subst handleContainerKeyDown.simps)
    (auto simp: keyStrokeAccepted_def split: option.splits)

text \<open>One pass through the handler for a keydown that passes the tests.\<close>

lemma keydown_step:
  assumes "keyStrokeAccepted ty so e s"
  shows "handleContainerKeyDown depth ty so e s =
     (case depth of
        0 \<Rightarrow> (keyStrokeForwarded (Suc 0) e s)\<lparr>reported :=
                 reported s @ [RangeError ''Maximum call stack size exceeded'']\<rparr>
      | Suc d \<Rightarrow> handleContainerKeyDown d ty so e (keyStrokeForwarded (Suc 0) e s))"
  using assms
  by (subst handleContainerKeyDown.simps)
    (auto simp: keyStrokeAccepted_def keyStrokeForwarded_def Let_def focusInput_fields
      split: option.splits nat.splits)

text \<open>
  The event that comes back up passes the tests again, since the closure has not
  changed: by induction on the room the call stack has left.
\<close>

lemma keydown_entered_again:
  "keyStrokeAccepted ty so e s \<Longrightarrow>
   handleContainerKeyDown depth ty so e (keyStrokeForwarded n e s) =
     (keyStrokeForwarded (Suc (n + depth)) e s)\<lparr>reported :=
        reported s @ [RangeError ''Maximum call stack size exceeded'']\<rparr>"
proof (induction depth arbitrary: n)
  case 0
  have "keyStrokeAccepted ty so e (keyStrokeForwarded n e s)"
    using 0 by (simp add: keyStrokeAccepted_def keyStrokeForwarded_fields)
  then show ?case
    by (simp add: keydown_step keyStrokeForwarded_again keyStrokeForwarded_fields)
next
  case (Suc depth)
  have "keyStrokeAccepted ty so e (keyStrokeForwarded n e s)"
    using Suc.prems by (simp add: keyStrokeAccepted_def keyStrokeForwarded_fields)
  then show ?case
    using Suc.IH [OF Suc.prems, of "Suc n"]
    by (simp add: keydown_step keyStrokeForwarded_again)
qed

text \<open>
  The two ways out of \<open>handleContainerKeyDown\<close>: nothing, or its effects with the event
  dispatched once for the keydown and once more for every time the handler is entered
  again, until the call stack is used up.
\<close>

lemma keydown_cases:
  "handleContainerKeyDown depth ty so e s =
     (if keyStrokeAccepted ty so e s
      then (keyStrokeForwarded (Suc depth) e s)\<lparr>reported :=
              reported s @ [RangeError ''Maximum call stack size exceeded'']\<rparr>
      else s)"
proof (cases "keyStrokeAccepted ty so e s")
  case True
  then show ?thesis
    using keydown_entered_again [OF True, of _ "Suc 0"]
    by (cases depth) (simp_all add: keydown_step)
next
  case False
  then show ?thesis by (simp add: keydown_rejected)
qed

text \<open>
  So a forwarded event reaches the input \<open>depth + 1\<close> times, and the pass that finds no
  room on the call stack leaves its error behind.
\<close>

lemma keydown_dispatched_again:
  assumes "keyStrokeAccepted ty so e s"
  shows "dispatched (handleContainerKeyDown depth ty so e s) =
           dispatched s @ replicate (Suc depth) e"
    and "reported (handleContainerKeyDown depth ty so e s) =
           reported s @ [RangeError ''Maximum call stack size exceeded'']"
  using assms by (simp_all add: keydown_cases keyStrokeForwarded_fields)

subsection \<open>Undo, copy and paste\<close>

text \<open>
  Claim C4. A keydown on the container whose key is z, c or v, in either case, with
  ctrl or meta held, is not forwarded and does not start editing: the handler leaves the
  state as it is, so the overlay is not hidden, the input is not focused and no event is
  dispatched to it. This holds whatever the handler's \<^verbatim>\<open>showOverlay\<close> and the room on the
  call stack are.
\<close>

theorem undo_copy_paste_not_forwarded:
  assumes "toLowerCase (key e) = js ''z'' \<or> toLowerCase (key e) = js ''c'' \<or>
           toLowerCase (key e) = js ''v''"
    and "ctrlKey e \<or> metaKey e"
  shows "handleContainerKeyDown depth ty so e s = s"
  using assms by (simp add: keydown_cases keyStrokeAccepted_def)

text \<open>
  Cmd+Z (with shift, so the key is \<^verbatim>\<open>"Z"\<close>) on a text cell in Overlay mode: a key the
  cell would accept, left to the host.
\<close>

theorem undo_copy_paste_not_forwarded_witness:
  "handleContainerKeyDown 0 TypeText (showOverlay exampleCell)
     \<lparr>key = js ''Z'', ctrlKey = False, metaKey = True\<rparr> exampleCell = exampleCell \<and>
   inputRef exampleCell = Some HTMLInputElement \<and> showOverlay exampleCell \<and>
   validateKeyStroke TypeText (js ''Z'')"
  using undo_copy_paste_not_forwarded
    [of "\<lparr>key = js ''Z'', ctrlKey = False, metaKey = True\<rparr>" 0 TypeText
      "showOverlay exampleCell" exampleCell]
  by (simp add: js_letters toLowerCase_def validateKeyStroke_def textCharacterRegex_def
      isLineTerminator_def exampleCell_def)

subsection \<open>Which keys are forwarded\<close>

text \<open>
  Claim C2, as the code has it. A keydown that the host delivers to the container, so
  that the handler's \<^verbatim>\<open>showOverlay\<close> is that of the state, is forwarded to the input
  (the event is dispatched to it, at least once) if and only if an input element exists,
  the key is a single character of the class of the cell's type (a digit from 0 to 9 for
  a number cell, any single character but a line terminator for a text cell, no key for
  a boolean or select cell), the overlay is showing, and the event is not z, c or v (in
  either case) with ctrl or meta held. A keydown that is not forwarded changes nothing.
  How often a forwarded event is dispatched is not part of the statement.
\<close>

theorem keydown_forwarded_iff:
  "(\<exists>n. dispatched (handleContainerKeyDown depth ty (showOverlay s) e s) =
          dispatched s @ e # replicate n e) =
     (inputRef s \<noteq> None \<and>
      (\<exists>c. key e = [c] \<and>
         (ty = TypeNumber \<and> 48 \<le> c \<and> c \<le> 57 \<or> ty = TypeText \<and> \<not> isLineTerminator c)) \<and>
      showOverlay s \<and>
      \<not> ((toLowerCase (key e) = js ''z'' \<or> toLowerCase (key e) = js ''c'' \<or>
           toLowerCase (key e) = js ''v'') \<and> (ctrlKey e \<or> metaKey e))) \<and>
   ((\<exists>n. dispatched (handleContainerKeyDown depth ty (showOverlay s) e s) =
           dispatched s @ e # replicate n e) \<or>
    handleContainerKeyDown depth ty (showOverlay s) e s = s)"
  unfolding validateKeyStroke_iff [symmetric]
  by (simp add: keydown_cases keyStrokeAccepted_def keyStrokeForwarded_fields)

text \<open>
  On a number cell in Overlay mode the digit 7 is forwarded and the letter a is not.
\<close>

theorem keydown_forwarded_iff_witness:
  "(\<exists>n. dispatched (handleContainerKeyDown (Suc (Suc 0)) TypeNumber (showOverlay exampleCell)
      \<lparr>key = js ''7'', ctrlKey = False, metaKey = False\<rparr> exampleCell)
     = \<lparr>key = js ''7'', ctrlKey = False, metaKey = False\<rparr> #
       replicate n \<lparr>key = js ''7'', ctrlKey = False, metaKey = False\<rparr>) \<and>
   handleContainerKeyDown (Suc (Suc 0)) TypeNumber (showOverlay exampleCell)
      \<lparr>key = js ''a'', ctrlKey = False, metaKey = False\<rparr> exampleCell = exampleCell"
  using keydown_forwarded_iff
      [of "Suc (Suc 0)" TypeNumber exampleCell
        "\<lparr>key = js ''7'', ctrlKey = False, metaKey = False\<rparr>"]
    keydown_forwarded_iff
      [of "Suc (Suc 0)" TypeNumber exampleCell
        "\<lparr>key = js ''a'', ctrlKey = False, metaKey = False\<rparr>"]
  by (auto simp: js_letters toLowerCase_def exampleCell_def)

text \<open>
  The three conditions alone do not decide it: on a text cell in Overlay mode with an
  input, Ctrl+C is a single character of the cell's class and is not forwarded; and the
  line feed is a single character that a text cell does not accept.
\<close>

theorem keydown_three_conditions_counterexample:
  "inputRef exampleCell = Some HTMLInputElement \<and> showOverlay exampleCell \<and>
   validateKeyStroke TypeText (js ''c'') \<and>
   handleContainerKeyDown 0 TypeText (showOverlay exampleCell)
     \<lparr>key = js ''c'', ctrlKey = True, metaKey = False\<rparr> exampleCell = exampleCell \<and>
   length [10 :: nat] = 1 \<and>
   handleContainerKeyDown 0 TypeText (showOverlay exampleCell)
     \<lparr>key = [10], ctrlKey = False, metaKey = False\<rparr> exampleCell = exampleCell"
  by (simp add: keydown_cases keyStrokeAccepted_def js_letters toLowerCase_def
      validateKeyStroke_def textCharacterRegex_def isLineTerminator_def exampleCell_def)

subsection \<open>Mouse-downs\<close>

text \<open>
  The inner control's handler is bound for boolean cells only; the overlay's handler is
  \<open>handleOverlayMouseDown\<close> for every type.
\<close>

lemma inner_onMouseDown_bound:
  "innerProps_onMouseDown (renderProps fld ty coords ident anc so) =
     (if ty = TypeBoolean then Some (handleBooleanInnerMouseDown coords) else None)"
  by (simp add: renderProps_def)

text \<open>Both handlers cancel the default action and the bubbling of every mouse-down.\<close>

lemma mouse_down_cancels:
  "defaultPrevented (handleOverlayMouseDown coords e s)"
  "propagationStopped (handleOverlayMouseDown coords e s)"
  "defaultPrevented (handleBooleanInnerMouseDown coords e s)"
  "propagationStopped (handleBooleanInnerMouseDown coords e s)"
  by (simp_all add: handleOverlayMouseDown_def handleBooleanInnerMouseDown_def Let_def
      focusInput_fields focusContainer_fields)



text \<open>
  Claim C5, as the code has it. A plain mouse-down (no shift, \<^verbatim>\<open>detail\<close> other than 2),
  taken by either handler, on a cell whose container element is mounted: the coordinator
  is left with the single-cell range of the clicked cell (anchor and end are its
  coordinates), \<^verbatim>\<open>isSelecting\<close> is true, and the container has the focus. When the
  container element is not mounted, the coordinator and the focus stay as they are.
\<close>

theorem plain_click_selects_the_cell:
  assumes "\<not> shiftKey e" and "detail e \<noteq> 2"
    and "h = handleOverlayMouseDown \<or> h = handleBooleanInnerMouseDown"
  shows "(containerRef s \<noteq> None \<longrightarrow>
            anchor (grid (h coords e s)) = Some coords \<and>
            rangeEnd (grid (h coords e s)) = Some coords \<and>
            isSelecting (grid (h coords e s)) = True \<and>
            activeElement (h coords e s) = ContainerFocused) \<and>
         (containerRef s = None \<longrightarrow>
            grid (h coords e s) = grid s \<and> activeElement (h coords e s) = activeElement s)"
  using assms
  by (auto simp: handleOverlayMouseDown_def handleBooleanInnerMouseDown_def Let_def
      setSingleRange_def setIsSelecting_def focusContainer_fields)

theorem plain_click_selects_the_cell_witness:
  "anchor (grid (handleOverlayMouseDown \<lparr>row = 4, col = 1\<rparr>
      \<lparr>detail = 1, shiftKey = False\<rparr> exampleCell)) = Some \<lparr>row = 4, col = 1\<rparr> \<and>
   rangeEnd (grid (handleOverlayMouseDown \<lparr>row = 4, col = 1\<rparr>
      \<lparr>detail = 1, shiftKey = False\<rparr> exampleCell)) = Some \<lparr>row = 4, col = 1\<rparr> \<and>
   isSelecting (grid (handleOverlayMouseDown \<lparr>row = 4, col = 1\<rparr>
      \<lparr>detail = 1, shiftKey = False\<rparr> exampleCell)) = True \<and>
   activeElement (handleOverlayMouseDown \<lparr>row = 4, col = 1\<rparr>
      \<lparr>detail = 1, shiftKey = False\<rparr> exampleCell) = ContainerFocused \<and>
   grid (handleBooleanInnerMouseDown \<lparr>row = 4, col = 1\<rparr> \<lparr>detail = 1, shiftKey = False\<rparr>
      (exampleCell\<lparr>containerRef := None\<rparr>)) = exampleGrid"
  using plain_click_selects_the_cell
      [of "\<lparr>detail = 1, shiftKey = False\<rparr>" handleOverlayMouseDown exampleCell
        "\<lparr>row = 4, col = 1\<rparr>"]
    plain_click_selects_the_cell
      [of "\<lparr>detail = 1, shiftKey = False\<rparr>" handleBooleanInnerMouseDown
        "exampleCell\<lparr>containerRef := None\<rparr>" "\<lparr>row = 4, col = 1\<rparr>"]
  by (simp add: exampleCell_def exampleGrid_def)

text \<open>
  A plain click on the cell in row 4 and column 1 while its container ref is empty: the
  anchor stays the cell in row 0 and column 0, \<^verbatim>\<open>isSelecting\<close> stays false and the
  focus does not move.
\<close>

theorem plain_click_counterexample:
  "containerRef (exampleCell\<lparr>containerRef := None\<rparr>) = None \<and>
   anchor (grid (handleOverlayMouseDown \<lparr>row = 4, col = 1\<rparr>
      \<lparr>detail = 1, shiftKey = False\<rparr> (exampleCell\<lparr>containerRef := None\<rparr>)))
     = Some \<lparr>row = 0, col = 0\<rparr> \<and>
   isSelecting (grid (handleOverlayMouseDown \<lparr>row = 4, col = 1\<rparr>
      \<lparr>detail = 1, shiftKey = False\<rparr> (exampleCell\<lparr>containerRef := None\<rparr>))) = False \<and>
   activeElement (handleOverlayMouseDown \<lparr>row = 4, col = 1\<rparr>
      \<lparr>detail = 1, shiftKey = False\<rparr> (exampleCell\<lparr>containerRef := None\<rparr>))
     = FocusElsewhere"
  by (simp add: handleOverlayMouseDown_def Let_def exampleCell_def exampleGrid_def)

text \<open>
  Claim C1, as the code has it. A mouse-down with shift held that is not a double-click
  (\<^verbatim>\<open>detail\<close> other than 2). When the clicked column is the column of the current
  anchor, the overlay's handler and the inner control's handler both set the end of the
  range to the clicked coordinates and leave the anchor as it is. When there is no anchor
  or the clicked column is another one, the overlay's handler does exactly what it does
  for the same event without shift: with the container mounted, a new single-cell range
  at the clicked cell and \<^verbatim>\<open>isSelecting\<close> true. What the inner control's handler does on
  another column is not part of the statement.
\<close>

theorem shift_click_extends_or_selects:
  assumes "shiftKey e" and "detail e \<noteq> 2"
  shows
    "(\<forall>a. anchor (grid s) = Some a \<and> col coords = col a \<longrightarrow>
        (\<forall>h \<in> {handleOverlayMouseDown, handleBooleanInnerMouseDown}.
           rangeEnd (grid (h coords e s)) = Some coords \<and>
           anchor (grid (h coords e s)) = anchor (grid s))) \<and>
     ((\<forall>a. anchor (grid s) = Some a \<longrightarrow> col coords \<noteq> col a) \<longrightarrow>
        handleOverlayMouseDown coords e s =
          handleOverlayMouseDown coords (e\<lparr>shiftKey := False\<rparr>) s \<and>
        (containerRef s \<noteq> None \<longrightarrow>
           anchor (grid (handleOverlayMouseDown coords e s)) = Some coords \<and>
           rangeEnd (grid (handleOverlayMouseDown coords e s)) = Some coords \<and>
           isSelecting (grid (handleOverlayMouseDown coords e s)) = True))"
  using assms
  by (auto simp: handleOverlayMouseDown_def handleBooleanInnerMouseDown_def Let_def
      setRangeEnd_def setSingleRange_def setIsSelecting_def focusContainer_fields
      split: option.splits)

theorem shift_click_extends_or_selects_witness:
  "rangeEnd (grid (handleOverlayMouseDown \<lparr>row = 3, col = 0\<rparr>
      \<lparr>detail = 1, shiftKey = True\<rparr> exampleCell)) = Some \<lparr>row = 3, col = 0\<rparr> \<and>
   anchor (grid (handleOverlayMouseDown \<lparr>row = 3, col = 0\<rparr>
      \<lparr>detail = 1, shiftKey = True\<rparr> exampleCell)) = Some \<lparr>row = 0, col = 0\<rparr> \<and>
   rangeEnd (grid (handleBooleanInnerMouseDown \<lparr>row = 3, col = 0\<rparr>
      \<lparr>detail = 1, shiftKey = True\<rparr> exampleCell)) = Some \<lparr>row = 3, col = 0\<rparr> \<and>
   anchor (grid (handleBooleanInnerMouseDown \<lparr>row = 3, col = 0\<rparr>
      \<lparr>detail = 1, shiftKey = True\<rparr> exampleCell)) = Some \<lparr>row = 0, col = 0\<rparr> \<and>
   anchor (grid (handleOverlayMouseDown \<lparr>row = 3, col = 2\<rparr>
      \<lparr>detail = 1, shiftKey = True\<rparr> exampleCell)) = Some \<lparr>row = 3, col = 2\<rparr> \<and>
   rangeEnd (grid (handleOverlayMouseDown \<lparr>row = 3, col = 2\<rparr>
      \<lparr>detail = 1, shiftKey = True\<rparr> exampleCell)) = Some \<lparr>row = 3, col = 2\<rparr> \<and>
   isSelecting (grid (handleOverlayMouseDown \<lparr>row = 3, col = 2\<rparr>
      \<lparr>detail = 1, shiftKey = True\<rparr> exampleCell)) = True"
  using shift_click_extends_or_selects
      [of "\<lparr>detail = 1, shiftKey = True\<rparr>" exampleCell "\<lparr>row = 3, col = 0\<rparr>"]
    shift_click_extends_or_selects
      [of "\<lparr>detail = 1, shiftKey = True\<rparr>" exampleCell "\<lparr>row = 3, col = 2\<rparr>"]
  by (auto simp: exampleCell_def exampleGrid_def)

text \<open>
  Two mouse-downs with shift held. A double-click on the anchor's column of a cell with
  an input, on the overlay: the end of the range stays the cell in row 0 and column 0.
  A click on a boolean cell in another column than the anchor's, on the inner control:
  the end of the range moves to the clicked cell, the anchor stays and \<^verbatim>\<open>isSelecting\<close>
  stays false, where the same click without shift makes the clicked cell the anchor and
  sets \<^verbatim>\<open>isSelecting\<close>.
\<close>

theorem shift_click_counterexample:
  "rangeEnd (grid (handleOverlayMouseDown \<lparr>row = 3, col = 0\<rparr>
      \<lparr>detail = 2, shiftKey = True\<rparr> exampleCell)) = Some \<lparr>row = 0, col = 0\<rparr> \<and>
   anchor (grid (handleBooleanInnerMouseDown \<lparr>row = 3, col = 2\<rparr>
      \<lparr>detail = 1, shiftKey = True\<rparr> exampleCell)) = Some \<lparr>row = 0, col = 0\<rparr> \<and>
   rangeEnd (grid (handleBooleanInnerMouseDown \<lparr>row = 3, col = 2\<rparr>
      \<lparr>detail = 1, shiftKey = True\<rparr> exampleCell)) = Some \<lparr>row = 3, col = 2\<rparr> \<and>
   isSelecting (grid (handleBooleanInnerMouseDown \<lparr>row = 3, col = 2\<rparr>
      \<lparr>detail = 1, shiftKey = True\<rparr> exampleCell)) = False \<and>
   anchor (grid (handleBooleanInnerMouseDown \<lparr>row = 3, col = 2\<rparr>
      \<lparr>detail = 1, shiftKey = False\<rparr> exampleCell)) = Some \<lparr>row = 3, col = 2\<rparr> \<and>
   isSelecting (grid (handleBooleanInnerMouseDown \<lparr>row = 3, col = 2\<rparr>
      \<lparr>detail = 1, shiftKey = False\<rparr> exampleCell)) = True"
  by (simp add: handleOverlayMouseDown_def handleBooleanInnerMouseDown_def Let_def
      setRangeEnd_def setSingleRange_def setIsSelecting_def focusInput_def focusContainer_def
      handleInputFocus_def containerOnFocus_def setIsEditing_def exampleCell_def
      exampleGrid_def)

text \<open>
  Claim C8. A double-click (\<^verbatim>\<open>detail\<close> 2) on the overlay of a cell whose input element
  is absent does not enter Direct-edit: the handler does what it does for a single click
  with the same modifiers, \<^verbatim>\<open>showOverlay\<close> keeps its value and the focus goes nowhere
  but to the container. So the click goes through the selection logic: with shift on
  the anchor's column it moves the end of the range, and otherwise, with the container
  mounted, it sets the anchor, the range and \<^verbatim>\<open>isSelecting\<close>.
\<close>

theorem double_click_without_input_falls_through:
  assumes "detail e = 2" and "inputRef s = None"
  shows
    "handleOverlayMouseDown coords e s = handleOverlayMouseDown coords (e\<lparr>detail := 1\<rparr>) s \<and>
     showOverlay (handleOverlayMouseDown coords e s) = showOverlay s \<and>
     activeElement (handleOverlayMouseDown coords e s) \<in> {activeElement s, ContainerFocused} \<and>
     (shiftKey e \<and> (\<exists>a. anchor (grid s) = Some a \<and> col coords = col a) \<longrightarrow>
        rangeEnd (grid (handleOverlayMouseDown coords e s)) = Some coords) \<and>
     (\<not> (shiftKey e \<and> (\<exists>a. anchor (grid s) = Some a \<and> col coords = col a)) \<and>
      containerRef s \<noteq> None \<longrightarrow>
        anchor (grid (handleOverlayMouseDown coords e s)) = Some coords \<and>
        rangeEnd (grid (handleOverlayMouseDown coords e s)) = Some coords \<and>
        isSelecting (grid (handleOverlayMouseDown coords e s)) = True)"
  using assms
  by (auto simp: handleOverlayMouseDown_def Let_def setRangeEnd_def setSingleRange_def
      setIsSelecting_def focusContainer_fields split: option.splits)

theorem double_click_without_input_falls_through_witness:
  "anchor (grid (handleOverlayMouseDown \<lparr>row = 3, col = 2\<rparr> \<lparr>detail = 2, shiftKey = False\<rparr>
      (exampleCell\<lparr>inputRef := None\<rparr>))) = Some \<lparr>row = 3, col = 2\<rparr> \<and>
   rangeEnd (grid (handleOverlayMouseDown \<lparr>row = 3, col = 2\<rparr>
      \<lparr>detail = 2, shiftKey = False\<rparr> (exampleCell\<lparr>inputRef := None\<rparr>)))
     = Some \<lparr>row = 3, col = 2\<rparr> \<and>
   isSelecting (grid (handleOverlayMouseDown \<lparr>row = 3, col = 2\<rparr>
      \<lparr>detail = 2, shiftKey = False\<rparr> (exampleCell\<lparr>inputRef := None\<rparr>))) = True \<and>
   showOverlay (handleOverlayMouseDown \<lparr>row = 3, col = 2\<rparr>
      \<lparr>detail = 2, shiftKey = False\<rparr> (exampleCell\<lparr>inputRef := None\<rparr>)) = True \<and>
   anchor (grid (exampleCell\<lparr>inputRef := None\<rparr>)) = Some \<lparr>row = 0, col = 0\<rparr> \<and>
   isSelecting (grid (exampleCell\<lparr>inputRef := None\<rparr>)) = False"
  using double_click_without_input_falls_through
      [of "\<lparr>detail = 2, shiftKey = False\<rparr>" "exampleCell\<lparr>inputRef := None\<rparr>"
        "\<lparr>row = 3, col = 2\<rparr>"]
  by (auto simp: exampleCell_def exampleGrid_def)

subsection \<open>What the view is told\<close>

text \<open>
  Claim C7. For a cell of type boolean or select the \<^verbatim>\<open>showOverlay\<close> flag of the render
  props is false, whatever the anchor, the \<^verbatim>\<open>showOverlay\<close> state, the coordinator's
  state and the other properties of the cell are: the type alone decides it.
\<close>

theorem no_overlay_for_boolean_and_select:
  assumes "ty = TypeBoolean \<or> ty = TypeSelect"
  shows
    "container_showOverlay (renderProps fld ty coords ident anc showOverlayState) = False \<and>
     (\<exists>r. useDataGridCell generateCellId
             \<lparr>field = fld, rowIndex = i, columnIndex = j, type = ty\<rparr> (Some g) showOverlayState
           = Inr r \<and>
          container_showOverlay (result_renderProps r) = False)"
  using assms
  by (auto simp: renderProps_def fieldWithoutOverlay_def useDataGridCell_def
      useDataGridContext_def Let_def)

theorem no_overlay_for_boolean_and_select_witness:
  "container_showOverlay (renderProps ''active'' TypeBoolean \<lparr>row = 0, col = 0\<rparr> ''0:0''
      (Some \<lparr>row = 0, col = 0\<rparr>) True) = False \<and>
   container_isAnchor (renderProps ''active'' TypeBoolean \<lparr>row = 0, col = 0\<rparr> ''0:0''
      (Some \<lparr>row = 0, col = 0\<rparr>) True) = True \<and>
   container_showOverlay (renderProps ''status'' TypeSelect \<lparr>row = 0, col = 0\<rparr> ''0:0''
      None True) = False \<and>
   container_showOverlay (renderProps ''title'' TypeText \<lparr>row = 0, col = 0\<rparr> ''0:0''
      None True) = True"
  using no_overlay_for_boolean_and_select
      [of TypeBoolean "''active''" "\<lparr>row = 0, col = 0\<rparr>" "''0:0''"
        "Some \<lparr>row = 0, col = 0\<rparr>" True]
    no_overlay_for_boolean_and_select
      [of TypeSelect "''status''" "\<lparr>row = 0, col = 0\<rparr>" "''0:0''" None True]
  by (simp add: renderProps_def fieldWithoutOverlay_def isAnchor_def isCellMatch_def)

subsection \<open>The hook outside a provider\<close>

text \<open>
  Claim C9. Without an enclosing provider (\<^verbatim>\<open>useContext\<close> gives nothing),
  \<^verbatim>\<open>useDataGridContext\<close> throws an error that names the misuse, and so does the hook
  \<^verbatim>\<open>useDataGridCell\<close>, for every cell and every state: the caller gets the error and no
  render props. There is no second attempt: the hook reads the context once. With a
  provider the hook returns its result.
\<close>

theorem hook_outside_provider_throws:
  "useDataGridContext None =
     Inl (Error ''useDataGridContext must be used within a DataGridContextProvider'') \<and>
   useDataGridCell generateCellId props None showOverlayState =
     Inl (Error ''useDataGridContext must be used within a DataGridContextProvider'') \<and>
   (\<exists>r. useDataGridCell generateCellId props (Some g) showOverlayState = Inr r)"
  by (simp add: useDataGridContext_def useDataGridCell_def Let_def)

subsection \<open>The fixture helper\<close>

text \<open>
  Claim C10. For every service, every list of records and every state of the service,
  the helper's outcome is the outcome of the one call of the service's
  \<^verbatim>\<open>createAuthIdentities\<close> on that list, or on the default list when the argument is
  omitted: the records the service resolves to, as they are and in their order, or the
  reason it rejects with. The service is left in the state after that one call.
\<close>

theorem createAuthIdentities_returns_the_service_outcome:
  "createAuthIdentities service (Some userData) st = service userData st \<and>
   createAuthIdentities service None st = service defaultUserData st \<and>
   (service userData st = (Inr records, st') \<longrightarrow>
      createAuthIdentities service (Some userData) st = (Inr records, st')) \<and>
   (service userData st = (Inl reason, st') \<longrightarrow>
      createAuthIdentities service (Some userData) st = (Inl reason, st'))"
  by (simp add: createAuthIdentities_def)

theorem createAuthIdentities_returns_the_service_outcome_witness:
  "createAuthIdentities exampleService None 0 =
     (Inr [[''test-id''], [''test-id-1''], [''test-id-2'']], 1) \<and>
   createAuthIdentities exampleService (Some []) 0 = (Inl ''no identities given'', 1)"
  using createAuthIdentities_returns_the_service_outcome
      [of exampleService defaultUserData 0
        "[[''test-id''], [''test-id-1''], [''test-id-2'']]" 1 "''no identities given''"]
    createAuthIdentities_returns_the_service_outcome
      [of exampleService "[]" 0 "[]" 1 "''no identities given''"]
  by (simp add: exampleService_def defaultUserData_def)

end
